theory Spec2Isabelle
  imports Main
begin

section \<open>The scoped resource of N3830\<close>

text \<open>
  A shallow embedding of \<^verbatim>\<open>scoped_resource.h\<close>. The class template
  \<^verbatim>\<open>scoped_resource<DELETER, R...>\<close> becomes a record with the three members of
  the class. The tuple \<^verbatim>\<open>std::tuple<R...>\<close> is a list of values of one type \<open>'r\<close>;
  a heterogeneous tuple is obtained by taking a sum of the element types for \<open>'r\<close>
  (see \<open>val\<close> below). The disposer is a value of an arbitrary type \<open>'d\<close>; the only thing
  the class ever does with it is to call it, and a call is recorded, with the callee and
  its positional arguments, at the end of the sequence of calls made so far.
\<close>

subsection \<open>Data\<close>

datatype invoke_it = once | again

record ('d, 'r) scoped_resource =
  m_deleter :: 'd
  m_resource :: "'r list"
  m_bExecute :: bool

type_synonym ('d, 'r) calls = "('d \<times> 'r list) list"

subsection \<open>Calling a function through a tuple\<close>

text \<open>
  \<^verbatim>\<open>Apply<N>::apply(f, t, a...)\<close> puts \<^verbatim>\<open>std::get<N-1>(t)\<close> in front of the arguments
  collected so far and continues with \<^verbatim>\<open>Apply<N-1>\<close>; \<^verbatim>\<open>Apply<0>::apply(f, t, a...)\<close>
  performs the call \<^verbatim>\<open>f(a...)\<close>.
\<close>

fun Apply :: "nat \<Rightarrow> 'd \<Rightarrow> 'r list \<Rightarrow> 'r list \<Rightarrow> ('d, 'r) calls \<Rightarrow> ('d, 'r) calls" where
  "Apply (Suc n) f t a w = Apply n f t (t ! n # a) w"
| "Apply 0 f t a w = w @ [(f, a)]"

text \<open>\<^verbatim>\<open>apply_ns::apply(f, t)\<close> starts the recursion at \<^verbatim>\<open>std::tuple_size\<close> of the tuple.\<close>

definition apply_ns_apply :: "'d \<Rightarrow> 'r list \<Rightarrow> ('d, 'r) calls \<Rightarrow> ('d, 'r) calls" where
  "apply_ns_apply f t w = Apply (length t) f t [] w"

subsection \<open>Construction, destruction and firing\<close>

text \<open>
  The constructor taking \<^verbatim>\<open>const DELETER&, const R&..., bool bShouldRun = true\<close>; it is the
  one both factory functions select, since they pass lvalues. The constructor from rvalues
  builds its tuple from \<^verbatim>\<open>std::move(resource...)\<close>, as \<^verbatim>\<open>reset\<close> below does, and so
  exists for one resource only, where it initialises the three members in the same way.
\<close>

definition scoped_resource_ctor :: "'d \<Rightarrow> 'r list \<Rightarrow> bool \<Rightarrow> ('d, 'r) scoped_resource" where
  "scoped_resource_ctor deleter resource bShouldRun =
     \<lparr>m_deleter = deleter, m_resource = resource, m_bExecute = bShouldRun\<rparr>"

text \<open>
  The move constructor. The result is the new object together with \<open>other\<close> as the
  constructor leaves it. For the handle types the class is made for (integers, pointers)
  \<^verbatim>\<open>std::move\<close> leaves the members of \<open>other\<close> as they were.
\<close>

definition scoped_resource_move ::
  "('d, 'r) scoped_resource \<Rightarrow> ('d, 'r) calls
    \<Rightarrow> ('d, 'r) scoped_resource \<times> ('d, 'r) scoped_resource \<times> ('d, 'r) calls" where
  "scoped_resource_move other w =
     (\<lparr>m_deleter = m_deleter other, m_resource = m_resource other,
       m_bExecute = m_bExecute other\<rparr>,
      other\<lparr>m_bExecute := False\<rparr>, w)"

definition invoke ::
  "invoke_it \<Rightarrow> ('d, 'r) scoped_resource \<Rightarrow> ('d, 'r) calls
    \<Rightarrow> ('d, 'r) scoped_resource \<times> ('d, 'r) calls" where
  "invoke strategy s w =
     (let w' = (if m_bExecute s then apply_ns_apply (m_deleter s) (m_resource s) w else w)
      in (s\<lparr>m_bExecute := (strategy = again)\<rparr>, w'))"

text \<open>The destructor: the object is gone afterwards, the calls remain.\<close>

definition scoped_resource_dtor :: "('d, 'r) scoped_resource \<Rightarrow> ('d, 'r) calls \<Rightarrow> ('d, 'r) calls" where
  "scoped_resource_dtor s w = snd (invoke once s w)"

text \<open>\<^verbatim>\<open>operator()(invoke_it how = invoke_it::once)\<close>.\<close>

definition operator_call ::
  "invoke_it \<Rightarrow> ('d, 'r) scoped_resource \<Rightarrow> ('d, 'r) calls
    \<Rightarrow> ('d, 'r) scoped_resource \<times> ('d, 'r) calls" where
  "operator_call how s w = invoke how s w"

subsection \<open>Release and reset\<close>

text \<open>
  \<^verbatim>\<open>release\<close> returns element 0 of the tuple extended by a value-initialised
  \<^verbatim>\<open>bool\<close>: the first resource, or \<open>False\<close> when there is none.
\<close>

definition release ::
  "('d, 'r) scoped_resource \<Rightarrow> ('d, 'r) calls
    \<Rightarrow> ('r + bool) \<times> ('d, 'r) scoped_resource \<times> ('d, 'r) calls" where
  "release s w =
     (let s' = s\<lparr>m_bExecute := False\<rparr>
      in ((map Inl (m_resource s') @ [Inr False]) ! 0, s', w))"

definition release_all ::
  "('d, 'r) scoped_resource \<Rightarrow> ('d, 'r) calls
    \<Rightarrow> 'r list \<times> ('d, 'r) scoped_resource \<times> ('d, 'r) calls" where
  "release_all s w =
     (let s' = s\<lparr>m_bExecute := False\<rparr>
      in (m_resource s', s', w))"

text \<open>
  \<^verbatim>\<open>reset(R&&... resource)\<close> fires with strategy \<open>again\<close> and then assigns
  \<^verbatim>\<open>std::make_tuple(std::move(resource...))\<close>. The pack \<open>resource\<close> has one value for
  each resource of the class. \<^verbatim>\<open>std::move\<close> takes one argument, so the expansion
  \<^verbatim>\<open>std::move(resource...)\<close> is rejected when the program is compiled unless the pack
  has exactly one value: for every other binding there is no call of \<^verbatim>\<open>reset\<close>, \<open>None\<close>.
  The constructor taking \<^verbatim>\<open>const R&...\<close> builds its tuple from
  \<^verbatim>\<open>std::make_tuple(resource...)\<close>, for every number of resources.
\<close>

definition reset ::
  "'r list \<Rightarrow> ('d, 'r) scoped_resource \<Rightarrow> ('d, 'r) calls
    \<Rightarrow> (('d, 'r) scoped_resource \<times> ('d, 'r) calls) option" where
  "reset resource s w =
     (if length resource = length (m_resource s) \<and> length resource = 1
      then (case invoke again s w of (s', w') \<Rightarrow> Some (s'\<lparr>m_resource := resource\<rparr>, w'))
      else None)"

subsection \<open>Accessors\<close>

text \<open>
  \<^verbatim>\<open>get<n>()\<close>. \<^verbatim>\<open>std::get<n>\<close> on a tuple of fewer than \<open>n + 1\<close> elements is rejected
  when the program is compiled: there is no value, \<open>None\<close>. The const and the non-const
  overloads of \<^verbatim>\<open>get\<close> and of \<^verbatim>\<open>get_deleter\<close> return a reference to the same member;
  the accessors below read it, and each returns the instance and the calls as it leaves
  them beside the value read.
\<close>

definition get ::
  "nat \<Rightarrow> ('d, 'r) scoped_resource \<Rightarrow> ('d, 'r) calls
    \<Rightarrow> 'r option \<times> ('d, 'r) scoped_resource \<times> ('d, 'r) calls" where
  "get n s w = (if n < length (m_resource s) then Some (m_resource s ! n) else None, s, w)"

text \<open>
  The conversion operator to \<^verbatim>\<open>first_type_or_void<R...>::type\<close> returns
  \<^verbatim>\<open>std::get<0>(m_resource)\<close>. \<^verbatim>\<open>first_type_or_void<F, L...>::type\<close> is \<^verbatim>\<open>F\<close>. With
  no resource the type is \<^verbatim>\<open>void\<close>, which has no values: the function is never used for
  a conversion, and its body is rejected as that of \<^verbatim>\<open>get<0>()\<close> is. There is no value,
  \<open>None\<close>.
\<close>

definition conversion ::
  "('d, 'r) scoped_resource \<Rightarrow> ('d, 'r) calls
    \<Rightarrow> 'r option \<times> ('d, 'r) scoped_resource \<times> ('d, 'r) calls" where
  "conversion s w = (if 0 < length (m_resource s) then Some (m_resource s ! 0) else None, s, w)"

definition get_deleter ::
  "('d, 'r) scoped_resource \<Rightarrow> ('d, 'r) calls
    \<Rightarrow> 'd \<times> ('d, 'r) scoped_resource \<times> ('d, 'r) calls" where
  "get_deleter s w = (m_deleter s, s, w)"

subsection \<open>The generator functions\<close>

definition make_scoped_resource :: "'d \<Rightarrow> 'r list \<Rightarrow> ('d, 'r) scoped_resource" where
  "make_scoped_resource t r = scoped_resource_ctor t r True"

definition make_scoped_resource_checked :: "'d \<Rightarrow> 'r \<Rightarrow> 'r \<Rightarrow> ('d, 'r) scoped_resource" where
  "make_scoped_resource_checked t r invalid = scoped_resource_ctor t [r] (r \<noteq> invalid)"

subsection \<open>The life of an instance\<close>

text \<open>
  What the owner of an instance can do with it between its construction and its
  destruction: the member functions above, and moving out of it into a new instance,
  after which the moved-from instance is the one followed. A call that is rejected when
  the program is compiled is a step of no program; \<open>step\<close> leaves the instance and the
  calls as they are there.
\<close>

datatype 'r operation =
    Invoke invoke_it
  | Functor invoke_it
  | Release
  | Release_all
  | Reset "'r list"
  | Get nat
  | Conversion
  | Get_deleter
  | Move_from

fun step ::
  "'r operation \<Rightarrow> ('d, 'r) scoped_resource \<times> ('d, 'r) calls
    \<Rightarrow> ('d, 'r) scoped_resource \<times> ('d, 'r) calls" where
  "step (Invoke how) (s, w) = invoke how s w"
| "step (Functor how) (s, w) = operator_call how s w"
| "step Release (s, w) = snd (release s w)"
| "step Release_all (s, w) = snd (release_all s w)"
| "step (Reset r) (s, w) = (case reset r s w of Some st \<Rightarrow> st | None \<Rightarrow> (s, w))"
| "step (Get n) (s, w) = snd (get n s w)"
| "step Conversion (s, w) = snd (conversion s w)"
| "step Get_deleter (s, w) = snd (get_deleter s w)"
| "step Move_from (s, w) = snd (scoped_resource_move s w)"

fun run ::
  "'r operation list \<Rightarrow> ('d, 'r) scoped_resource \<times> ('d, 'r) calls
    \<Rightarrow> ('d, 'r) scoped_resource \<times> ('d, 'r) calls" where
  "run [] st = st"
| "run (x # xs) st = run xs (step x st)"

text \<open>
  The calls an instance makes from its construction to the end of its scope, where the
  destructor runs.
\<close>

definition lifetime :: "('d, 'r) scoped_resource \<Rightarrow> 'r operation list \<Rightarrow> ('d, 'r) calls" where
  "lifetime s xs = (case run xs (s, []) of (s', w) \<Rightarrow> scoped_resource_dtor s' w)"

text \<open>
  Three kinds of operation: those that leave the armed flag set whatever it was (firing
  with strategy \<open>again\<close>, and \<open>reset\<close>, which fires that way), those that give up the
  cleanup without firing, and the explicit firings.
\<close>

fun rearms :: "'r operation \<Rightarrow> bool" where
  "rearms (Invoke how) = (how = again)"
| "rearms (Functor how) = (how = again)"
| "rearms (Reset r) = True"
| "rearms x = False"

fun surrenders :: "'r operation \<Rightarrow> bool" where
  "surrenders Release = True"
| "surrenders Release_all = True"
| "surrenders Move_from = True"
| "surrenders x = False"

fun fires :: "'r operation \<Rightarrow> bool" where
  "fires (Invoke how) = True"
| "fires (Functor how) = True"
| "fires x = False"

subsection \<open>Values of the demonstration program\<close>

text \<open>
  The resources of \<^verbatim>\<open>hello.cpp\<close> are a file descriptor and a string; \<open>fn\<close> names a
  disposer.
\<close>

datatype val = IntV int | StrV string

datatype fn = cs2 | close_fn

section \<open>Properties\<close>

subsection \<open>Unpacking the tuple\<close>

lemma Apply_take:
  "n \<le> length t \<Longrightarrow> Apply n f t a w = w @ [(f, take n t @ a)]"
proof (induction n arbitrary: a)
  case 0
  show ?case by simp
next
  case (Suc n)
  from Suc.prems have lt: "n < length t" by simp
  have "Apply (Suc n) f t a w = Apply n f t (t ! n # a) w" by simp
  also have "\<dots> = w @ [(f, take n t @ (t ! n # a))]"
    using Suc.IH [of "t ! n # a"] lt by simp
  also have "take n t @ (t ! n # a) = take (Suc n) t @ a"
    using lt by (simp add: take_Suc_conv_app_nth)
  finally show ?case .
qed

lemma apply_ns_apply_call: "apply_ns_apply f t w = w @ [(f, t)]"
  by (simp add: apply_ns_apply_def Apply_take)

lemma invoke_eq:
  "invoke strategy s w =
     (s\<lparr>m_bExecute := (strategy = again)\<rparr>,
      if m_bExecute s then w @ [(m_deleter s, m_resource s)] else w)"
  by (simp add: invoke_def apply_ns_apply_call)

lemma dtor_eq:
  "scoped_resource_dtor s w =
     (if m_bExecute s then w @ [(m_deleter s, m_resource s)] else w)"
  by (simp add: scoped_resource_dtor_def invoke_eq)

text \<open>
  C7: when an armed instance fires, at its destruction or through \<open>invoke\<close>, the disposer
  is called once with the bound resources as its positional arguments, in their order:
  \<open>k\<close> resources give one call with \<open>k\<close> arguments, and no resource gives one call without
  arguments.
\<close>

theorem fire_unpacks_in_order:
  "apply_ns_apply f t w = w @ [(f, t)] \<and>
   (m_bExecute s \<longrightarrow>
      invoke strategy s w
        = (s\<lparr>m_bExecute := (strategy = again)\<rparr>, w @ [(m_deleter s, m_resource s)]) \<and>
      scoped_resource_dtor s w = w @ [(m_deleter s, m_resource s)])"
  by (simp add: apply_ns_apply_call invoke_eq dtor_eq)

text \<open>
  The binding of \<open>(7, "bye")\<close> gives the call \<open>cs2(7, "bye")\<close>, and a binding of no
  resource the call \<open>cs2()\<close>.
\<close>

theorem fire_unpacks_in_order_witness:
  "m_bExecute (make_scoped_resource cs2 [IntV 7, StrV ''bye'']) \<and>
   scoped_resource_dtor (make_scoped_resource cs2 [IntV 7, StrV ''bye'']) []
     = [(cs2, [IntV 7, StrV ''bye''])] \<and>
   m_bExecute (make_scoped_resource cs2 ([] :: val list)) \<and>
   scoped_resource_dtor (make_scoped_resource cs2 ([] :: val list)) [] = [(cs2, [])]"
proof -
  have a: "m_bExecute (make_scoped_resource cs2 [IntV 7, StrV ''bye''])"
    and b: "m_bExecute (make_scoped_resource cs2 ([] :: val list))"
    by (simp_all add: make_scoped_resource_def scoped_resource_ctor_def)
  from a b
    fire_unpacks_in_order
      [of cs2 "[]" "[]" "make_scoped_resource cs2 [IntV 7, StrV ''bye'']" once]
    fire_unpacks_in_order [of cs2 "[]" "[]" "make_scoped_resource cs2 ([] :: val list)" once]
  show ?thesis by (simp add: make_scoped_resource_def scoped_resource_ctor_def)
qed

subsection \<open>Steps of a life\<close>

lemmas member_defs =
  operator_call_def release_def release_all_def reset_def get_def conversion_def
  get_deleter_def scoped_resource_move_def

lemma step_disarmed:
  "\<not> m_bExecute s \<Longrightarrow> \<not> rearms x \<Longrightarrow> step x (s, w) = (s, w)"
  by (cases x; cases s)
     (auto simp: invoke_eq member_defs split: list.splits invoke_it.splits)

lemma run_disarmed:
  "\<not> m_bExecute s \<Longrightarrow> \<forall>x\<in>set xs. \<not> rearms x \<Longrightarrow> run xs (s, w) = (s, w)"
  by (induction xs) (simp_all add: step_disarmed)

lemma step_accessor:
  "\<not> rearms x \<Longrightarrow> \<not> surrenders x \<Longrightarrow> \<not> fires x \<Longrightarrow> step x (s, w) = (s, w)"
  by (cases x) (auto simp: member_defs split: list.splits)

lemma step_fire_once:
  "fires x \<Longrightarrow> \<not> rearms x \<Longrightarrow>
   step x (s, w) =
     (s\<lparr>m_bExecute := False\<rparr>,
      if m_bExecute s then w @ [(m_deleter s, m_resource s)] else w)"
  by (cases x) (auto simp: invoke_eq member_defs split: invoke_it.splits)

lemma step_surrender:
  "surrenders x \<Longrightarrow> step x (s, w) = (s\<lparr>m_bExecute := False\<rparr>, w)"
  by (cases x) (auto simp: member_defs)

lemma step_cases:
  "\<not> rearms x \<Longrightarrow>
   step x (s, w) = (s, w) \<or> step x (s, w) = (s\<lparr>m_bExecute := False\<rparr>, w) \<or>
   (m_bExecute s \<and>
    step x (s, w) = (s\<lparr>m_bExecute := False\<rparr>, w @ [(m_deleter s, m_resource s)]))"
  using step_accessor [of x s w] step_fire_once [of x s w] step_surrender [of x s w]
  by (cases "fires x"; cases "surrenders x"; cases "m_bExecute s") simp_all

lemma run_at_most_once:
  "\<forall>x\<in>set xs. \<not> rearms x \<Longrightarrow>
   (case run xs (s, w) of (s', w') \<Rightarrow> scoped_resource_dtor s' w') = w \<or>
   (case run xs (s, w) of (s', w') \<Rightarrow> scoped_resource_dtor s' w')
     = w @ [(m_deleter s, m_resource s)]"
proof (induction xs arbitrary: s w)
  case Nil
  show ?case by (simp add: dtor_eq)
next
  case (Cons x xs)
  from Cons.prems have x: "\<not> rearms x" and xs: "\<forall>x\<in>set xs. \<not> rearms x" by simp_all
  let ?c = "(m_deleter s, m_resource s)"
  let ?off = "s\<lparr>m_bExecute := False\<rparr>"
  from step_cases [OF x, of s w]
  consider "step x (s, w) = (s, w)" | "step x (s, w) = (?off, w)"
    | "step x (s, w) = (?off, w @ [?c])" by blast
  then show ?case
  proof cases
    case 1
    then show ?thesis using Cons.IH [OF xs, of s w] by simp
  next
    case 2
    have "run xs (?off, w) = (?off, w)" using xs by (simp add: run_disarmed)
    with 2 show ?thesis by (simp add: dtor_eq)
  next
    case 3
    have "run xs (?off, w @ [?c]) = (?off, w @ [?c])" using xs by (simp add: run_disarmed)
    with 3 show ?thesis by (simp add: dtor_eq)
  qed
qed

lemma run_exactly_once:
  "m_bExecute s \<Longrightarrow> \<forall>x\<in>set xs. \<not> rearms x \<and> \<not> surrenders x \<Longrightarrow>
   (case run xs (s, w) of (s', w') \<Rightarrow> scoped_resource_dtor s' w')
     = w @ [(m_deleter s, m_resource s)] \<and>
   snd (run xs (s, w))
     = (if \<exists>x\<in>set xs. fires x then w @ [(m_deleter s, m_resource s)] else w)"
proof (induction xs arbitrary: s w)
  case Nil
  then show ?case by (simp add: dtor_eq)
next
  case (Cons x xs)
  from Cons.prems have x: "\<not> rearms x" "\<not> surrenders x"
    and xs: "\<forall>x\<in>set xs. \<not> rearms x \<and> \<not> surrenders x" by simp_all
  let ?c = "(m_deleter s, m_resource s)"
  let ?off = "s\<lparr>m_bExecute := False\<rparr>"
  show ?case
  proof (cases "fires x")
    case True
    then have st: "step x (s, w) = (?off, w @ [?c])"
      using x Cons.prems(1) by (simp add: step_fire_once)
    have "run xs (?off, w @ [?c]) = (?off, w @ [?c])" using xs by (simp add: run_disarmed)
    with st True show ?thesis by (simp add: dtor_eq)
  next
    case False
    then have st: "step x (s, w) = (s, w)" using x by (simp add: step_accessor)
    with False Cons.IH [OF Cons.prems(1) xs, of w] show ?thesis by simp
  qed
qed

subsection \<open>Single fire\<close>

text \<open>
  C1, as amended: an instance made armed whose owner never fires it with strategy
  \<open>again\<close> and never resets it calls the disposer at most once in its life. When the
  owner also never gives the cleanup up (\<open>release\<close>, \<open>release_all\<close>, moving out of the
  instance), the disposer is called exactly once, with the bound resources: at the first
  explicit firing when there is one, and at the destruction otherwise.
\<close>

theorem single_fire_by_default:
  assumes "\<forall>x\<in>set xs. \<not> rearms x"
  shows "length (lifetime (make_scoped_resource d rs) xs) \<le> 1 \<and>
    ((\<forall>x\<in>set xs. \<not> surrenders x) \<longrightarrow>
       lifetime (make_scoped_resource d rs) xs = [(d, rs)] \<and>
       snd (run xs (make_scoped_resource d rs, []))
         = (if \<exists>x\<in>set xs. fires x then [(d, rs)] else []))"
proof -
  let ?s = "make_scoped_resource d rs"
  have s: "m_bExecute ?s" "m_deleter ?s = d" "m_resource ?s = rs"
    by (simp_all add: make_scoped_resource_def scoped_resource_ctor_def)
  have "lifetime ?s xs = [] \<or> lifetime ?s xs = [(d, rs)]"
    using run_at_most_once [OF assms, of ?s "[]"] s by (simp add: lifetime_def)
  then have le: "length (lifetime ?s xs) \<le> 1" by auto
  have "lifetime ?s xs = [(d, rs)] \<and>
      snd (run xs (?s, [])) = (if \<exists>x\<in>set xs. fires x then [(d, rs)] else [])"
    if "\<forall>x\<in>set xs. \<not> surrenders x"
    using run_exactly_once [of ?s xs "[]"] s assms that by (simp add: lifetime_def)
  with le show ?thesis by blast
qed

text \<open>
  An early firing followed by the end of the scope: one call of \<open>close_fn(5)\<close>, made
  before the destructor runs. Without a firing the one call is the destructor's.
\<close>

theorem single_fire_by_default_witness:
  "lifetime (make_scoped_resource close_fn [IntV 5])
     [Get 0, Functor once, Conversion, Invoke once] = [(close_fn, [IntV 5])] \<and>
   snd (run [Get 0, Functor once, Conversion, Invoke once]
          (make_scoped_resource close_fn [IntV 5], [])) = [(close_fn, [IntV 5])] \<and>
   lifetime (make_scoped_resource close_fn [IntV 5]) [Get 0, Get_deleter]
     = [(close_fn, [IntV 5])] \<and>
   snd (run [Get 0, Get_deleter] (make_scoped_resource close_fn [IntV 5], [])) = []"
  using single_fire_by_default
    [of "[Get 0, Functor once, Conversion, Invoke once :: val operation]" close_fn "[IntV 5]"]
    single_fire_by_default [of "[Get 0, Get_deleter :: val operation]" close_fn "[IntV 5]"]
  by simp

text \<open>
  An owner that calls \<open>release\<close> neither fires with \<open>again\<close> nor resets, and the disposer
  of its armed instance is never called.
\<close>

theorem single_fire_counterexample:
  "m_bExecute (make_scoped_resource close_fn [IntV 3]) \<and>
   \<not> rearms (Release :: val operation) \<and>
   lifetime (make_scoped_resource close_fn [IntV 3]) [Release] = []"
  by (simp add: lifetime_def make_scoped_resource_def scoped_resource_ctor_def
      release_def dtor_eq)

subsection \<open>Firing a disarmed instance\<close>

text \<open>
  C2, as amended: firing an instance whose armed flag is false calls nothing; afterwards
  the flag is false for strategy \<open>once\<close> and true for strategy \<open>again\<close>. After \<open>release\<close>,
  \<open>release_all\<close> or a move out of the instance, the flag is false and stays false, and
  nothing is called, under every sequence of operations without \<open>reset\<close> and without a
  firing with strategy \<open>again\<close>.
\<close>

theorem disarmed_fire:
  "(\<not> m_bExecute s \<longrightarrow>
      invoke strategy s w = (s\<lparr>m_bExecute := (strategy = again)\<rparr>, w) \<and>
      operator_call strategy s w = (s\<lparr>m_bExecute := (strategy = again)\<rparr>, w)) \<and>
   (surrenders x0 \<longrightarrow> (\<forall>x\<in>set xs. \<not> rearms x) \<longrightarrow>
      \<not> m_bExecute (fst (run xs (step x0 (t, v)))) \<and> snd (run xs (step x0 (t, v))) = v)"
proof -
  have "run xs (step x0 (t, v)) = (t\<lparr>m_bExecute := False\<rparr>, v)"
    if "surrenders x0" "\<forall>x\<in>set xs. \<not> rearms x"
    using that by (simp add: step_surrender run_disarmed)
  then show ?thesis by (simp add: invoke_eq operator_call_def)
qed

text \<open>
  Firing once an instance that the checked factory made disarmed changes nothing, and a
  released instance stays as \<open>release\<close> left it.
\<close>

theorem disarmed_fire_witness:
  "invoke once (make_scoped_resource_checked close_fn (IntV (- 1)) (IntV (- 1))) []
     = (make_scoped_resource_checked close_fn (IntV (- 1)) (IntV (- 1)), []) \<and>
   run [Invoke once, Get 0, Release_all, Move_from, Functor once]
     (step Release (make_scoped_resource close_fn [IntV 3], []))
     = (\<lparr>m_deleter = close_fn, m_resource = [IntV 3], m_bExecute = False\<rparr>, [])"
proof -
  let ?s = "make_scoped_resource_checked close_fn (IntV (- 1)) (IntV (- 1))"
  let ?xs = "[Invoke once, Get 0, Release_all, Move_from, Functor once :: val operation]"
  have off: "\<not> m_bExecute ?s"
    by (simp add: make_scoped_resource_checked_def scoped_resource_ctor_def)
  have xs: "\<forall>x\<in>set ?xs. \<not> rearms x" by simp
  have x0: "surrenders (Release :: val operation)" by simp
  from disarmed_fire [of ?s once "[]" Release ?xs "make_scoped_resource close_fn [IntV 3]" "[]"]
    off xs x0
  show ?thesis
    by (simp add: make_scoped_resource_checked_def make_scoped_resource_def
        scoped_resource_ctor_def invoke_eq member_defs)
qed

text \<open>
  Strategy \<open>again\<close> sets the flag whatever it was: a disarmed instance is armed after
  \<open>invoke(again)\<close>, although nothing was called, and so is a released one.
\<close>

theorem disarmed_fire_counterexample:
  "\<not> m_bExecute (make_scoped_resource_checked close_fn (IntV (- 1)) (IntV (- 1))) \<and>
   invoke again (make_scoped_resource_checked close_fn (IntV (- 1)) (IntV (- 1))) []
     = (\<lparr>m_deleter = close_fn, m_resource = [IntV (- 1)], m_bExecute = True\<rparr>, []) \<and>
   m_bExecute (fst (run [Release, Invoke again] (make_scoped_resource close_fn [IntV 3], [])))"
  by (simp add: make_scoped_resource_checked_def make_scoped_resource_def
      scoped_resource_ctor_def invoke_eq release_def)

subsection \<open>The checked factory\<close>

text \<open>
  C3: \<open>make_scoped_resource_checked(d, r, invalid)\<close> returns an instance that is armed
  exactly when \<open>r\<close> differs from \<open>invalid\<close>; at the end of the scope, with no operation in
  between, the disposer is called with \<open>r\<close> if and only if \<open>r\<close> differs from \<open>invalid\<close>.
\<close>

theorem checked_factory:
  "m_bExecute (make_scoped_resource_checked d r invalid) = (r \<noteq> invalid) \<and>
   scoped_resource_dtor (make_scoped_resource_checked d r invalid) w
     = (if r = invalid then w else w @ [(d, [r])]) \<and>
   lifetime (make_scoped_resource_checked d r invalid) []
     = (if r = invalid then [] else [(d, [r])]) \<and>
   ((d, [r]) \<in> set (lifetime (make_scoped_resource_checked d r invalid) []))
     = (r \<noteq> invalid)"
  by (simp add: make_scoped_resource_checked_def scoped_resource_ctor_def lifetime_def dtor_eq)

text \<open>The sentinel \<open>-1\<close>: no call for the resource \<open>-1\<close>, the call \<open>close_fn(3)\<close> for \<open>3\<close>.\<close>

theorem checked_factory_witness:
  "lifetime (make_scoped_resource_checked close_fn (IntV (- 1)) (IntV (- 1))) [] = [] \<and>
   lifetime (make_scoped_resource_checked close_fn (IntV 3) (IntV (- 1))) []
     = [(close_fn, [IntV 3])]"
  using checked_factory [of close_fn "IntV (- 1)" "IntV (- 1)" "[]"]
    checked_factory [of close_fn "IntV 3" "IntV (- 1)" "[]"]
  by simp

text \<open>
  C9: \<open>make_scoped_resource_checked(d, r, invalid)\<close> stores \<open>r\<close> whatever the comparison
  gives: also when \<open>r\<close> is the sentinel and the instance is disarmed, \<open>get()\<close> returns \<open>r\<close>
  and \<open>release()\<close> returns \<open>r\<close>.
\<close>

theorem checked_stores_resource:
  "m_resource (make_scoped_resource_checked d r invalid) = [r] \<and>
   fst (get 0 (make_scoped_resource_checked d r invalid) w) = Some r \<and>
   fst (release (make_scoped_resource_checked d r invalid) w) = Inl r \<and>
   \<not> m_bExecute (make_scoped_resource_checked d r r) \<and>
   fst (get 0 (make_scoped_resource_checked d r r) w) = Some r \<and>
   fst (release (make_scoped_resource_checked d r r) w) = Inl r"
  by (simp add: make_scoped_resource_checked_def scoped_resource_ctor_def get_def release_def)

theorem checked_stores_resource_witness:
  "fst (get 0 (make_scoped_resource_checked close_fn (IntV (- 1)) (IntV (- 1))) [])
     = Some (IntV (- 1)) \<and>
   fst (release (make_scoped_resource_checked close_fn (IntV (- 1)) (IntV (- 1))) [])
     = Inl (IntV (- 1))"
  using checked_stores_resource [of close_fn "IntV (- 1)" "IntV (- 1)" "[]"]
  by simp

subsection \<open>Reset\<close>

text \<open>
  Where \<open>reset\<close> exists, on a binding of one resource, it first calls the disposer with
  the old resource when the instance is armed, and calls nothing when it is disarmed;
  then it replaces the resource and leaves the disposer as it was; on return the
  instance is armed, and the firing at the end of the scope calls the disposer with the
  new resource.
\<close>

lemma reset_single_resource:
  assumes "length (m_resource s) = 1"
  shows "reset [r'] s w =
     Some (s\<lparr>m_resource := [r'], m_bExecute := True\<rparr>,
           if m_bExecute s then w @ [(m_deleter s, m_resource s)] else w)"
    and "scoped_resource_dtor (s\<lparr>m_resource := [r'], m_bExecute := True\<rparr>) v
           = v @ [(m_deleter s, [r'])]"
  using assms by (simp_all add: reset_def invoke_eq dtor_eq)

lemma reset_rebinding:
  "lifetime (make_scoped_resource close_fn [StrV ''A'']) [Reset [StrV ''B'']]
     = [(close_fn, [StrV ''A'']), (close_fn, [StrV ''B''])]"
  by (simp add: lifetime_def make_scoped_resource_def scoped_resource_ctor_def reset_def
      invoke_eq dtor_eq)

text \<open>
  C4 asks of every instance that \<open>reset\<close> fires on the old resources when armed,
  rebinds the tuple to the new values, leaves the disposer and returns an armed
  instance. On the binding of \<open>(7, "bye")\<close> to \<open>cs2\<close>, the binding of the demonstration
  program, the call \<open>reset(8, "ciao")\<close> is rejected: nothing is called and nothing
  is rebound. The same holds for \<open>reset()\<close> on a binding of no resource.
\<close>

theorem reset_two_resources:
  "reset [IntV 8, StrV ''ciao''] (make_scoped_resource cs2 [IntV 7, StrV ''bye'']) [] = None \<and>
   reset [] (make_scoped_resource cs2 ([] :: val list)) [] = None"
  by (simp add: reset_def make_scoped_resource_def scoped_resource_ctor_def)

subsection \<open>Release\<close>

text \<open>
  C5: \<open>release()\<close> and \<open>release_all()\<close> clear the armed flag, call nothing and leave the
  resources as they were; \<open>release()\<close> returns the first resource, or the boolean \<open>False\<close>
  when no resource is bound, and \<open>release_all()\<close> returns all the resources; after either
  call the end of the scope fires nothing.
\<close>

theorem release_disarms:
  "release s w =
     (case m_resource s of [] \<Rightarrow> Inr False | r # L \<Rightarrow> Inl r, s\<lparr>m_bExecute := False\<rparr>, w) \<and>
   release_all s w = (m_resource s, s\<lparr>m_bExecute := False\<rparr>, w) \<and>
   scoped_resource_dtor (fst (snd (release s w))) (snd (snd (release s w))) = w \<and>
   scoped_resource_dtor (fst (snd (release_all s w))) (snd (snd (release_all s w))) = w"
  by (simp add: release_def release_all_def dtor_eq split: list.splits)

theorem release_disarms_witness:
  "release (make_scoped_resource cs2 [IntV 7, StrV ''bye'']) []
     = (Inl (IntV 7),
        \<lparr>m_deleter = cs2, m_resource = [IntV 7, StrV ''bye''], m_bExecute = False\<rparr>, []) \<and>
   fst (release (make_scoped_resource cs2 ([] :: val list)) []) = Inr False \<and>
   lifetime (make_scoped_resource cs2 [IntV 7, StrV ''bye'']) [Release] = [] \<and>
   lifetime (make_scoped_resource cs2 [IntV 7, StrV ''bye'']) [Release_all] = []"
  using release_disarms [of "make_scoped_resource cs2 [IntV 7, StrV ''bye'']" "[]"]
    release_disarms [of "make_scoped_resource cs2 ([] :: val list)" "[]"]
  by (simp add: lifetime_def make_scoped_resource_def scoped_resource_ctor_def dtor_eq)

subsection \<open>Move\<close>

text \<open>
  C6: move-constructing \<open>y\<close> from an armed \<open>x\<close> gives \<open>y\<close> the disposer and the resources
  of \<open>x\<close> and leaves \<open>x\<close> disarmed: destroying \<open>x\<close> afterwards calls nothing, and destroying
  \<open>y\<close> calls the disposer once with the resources \<open>x\<close> had; the two destructions together,
  in either order, make that one call.
\<close>

theorem move_disarms_source:
  assumes "m_bExecute x"
  shows "case scoped_resource_move x w of (y, x', w') \<Rightarrow>
     m_deleter y = m_deleter x \<and> m_resource y = m_resource x \<and> m_bExecute y \<and>
     \<not> m_bExecute x' \<and> w' = w \<and>
     scoped_resource_dtor x' w = w \<and>
     scoped_resource_dtor y w = w @ [(m_deleter x, m_resource x)] \<and>
     scoped_resource_dtor x' (scoped_resource_dtor y w) = w @ [(m_deleter x, m_resource x)] \<and>
     scoped_resource_dtor y (scoped_resource_dtor x' w) = w @ [(m_deleter x, m_resource x)]"
  using assms by (simp add: scoped_resource_move_def dtor_eq)

theorem move_disarms_source_witness:
  "m_bExecute (make_scoped_resource close_fn [IntV 3]) \<and>
   scoped_resource_move (make_scoped_resource close_fn [IntV 3]) []
     = (\<lparr>m_deleter = close_fn, m_resource = [IntV 3], m_bExecute = True\<rparr>,
        \<lparr>m_deleter = close_fn, m_resource = [IntV 3], m_bExecute = False\<rparr>, []) \<and>
   scoped_resource_dtor \<lparr>m_deleter = close_fn, m_resource = [IntV 3], m_bExecute = False\<rparr>
     (scoped_resource_dtor \<lparr>m_deleter = close_fn, m_resource = [IntV 3], m_bExecute = True\<rparr> [])
     = [(close_fn, [IntV 3])]"
proof -
  have armed: "m_bExecute (make_scoped_resource close_fn [IntV 3])"
    by (simp add: make_scoped_resource_def scoped_resource_ctor_def)
  from move_disarms_source [OF armed, of "[]"] armed show ?thesis
    by (simp add: scoped_resource_move_def make_scoped_resource_def scoped_resource_ctor_def
        dtor_eq)
qed

subsection \<open>Accessors\<close>

text \<open>
  C8, as amended: for an instance that binds at least one resource the conversion
  operator returns the first resource, so it returns \<open>v\<close> for the binding of the single
  value \<open>v\<close>; for an instance that binds none the type of the conversion is \<open>void\<close> and
  there is no value; the conversion leaves the instance as it was.
\<close>

theorem conversion_first:
  "(m_resource s \<noteq> [] \<longrightarrow> fst (conversion s w) = Some (m_resource s ! 0)) \<and>
   (m_resource s = [] \<longrightarrow> fst (conversion s w) = None) \<and>
   fst (conversion (make_scoped_resource d [v]) w) = Some v \<and>
   snd (conversion s w) = (s, w)"
  by (simp add: conversion_def make_scoped_resource_def scoped_resource_ctor_def)

theorem conversion_first_witness:
  "m_resource (make_scoped_resource cs2 [IntV 7, StrV ''bye'']) \<noteq> [] \<and>
   fst (conversion (make_scoped_resource cs2 [IntV 7, StrV ''bye'']) []) = Some (IntV 7) \<and>
   m_resource (make_scoped_resource cs2 ([] :: val list)) = [] \<and>
   fst (conversion (make_scoped_resource cs2 ([] :: val list)) []) = None"
  using conversion_first [of "make_scoped_resource cs2 [IntV 7, StrV ''bye'']" "[]"]
    conversion_first [of "make_scoped_resource cs2 ([] :: val list)" "[]"]
  by (simp add: make_scoped_resource_def scoped_resource_ctor_def)

text \<open>
  The binding of no resource, as \<^verbatim>\<open>s1\<close> and \<^verbatim>\<open>main\<close> of the demonstration program
  make it: the conversion gives no value, whereas \<open>release\<close> gives the boolean \<open>False\<close>
  in its place.
\<close>

theorem conversion_counterexample:
  "m_resource (make_scoped_resource cs2 ([] :: val list)) = [] \<and>
   fst (conversion (make_scoped_resource cs2 ([] :: val list)) []) = None \<and>
   fst (release (make_scoped_resource cs2 ([] :: val list)) []) = Inr False"
  by (simp add: conversion_def release_def make_scoped_resource_def scoped_resource_ctor_def)

text \<open>
  C10: \<open>get<n>()\<close>, \<open>get_deleter()\<close> and the conversion operator leave the armed flag, the
  disposer and the resources as they were, and call nothing.
\<close>

theorem accessors_frame:
  "snd (get n s w) = (s, w) \<and> snd (get_deleter s w) = (s, w) \<and>
   snd (conversion s w) = (s, w)"
  by (simp add: get_def get_deleter_def conversion_def split: list.splits)

theorem accessors_frame_witness:
  "snd (get 1 (make_scoped_resource cs2 [IntV 7, StrV ''bye'']) [])
     = (make_scoped_resource cs2 [IntV 7, StrV ''bye''], []) \<and>
   fst (get 1 (make_scoped_resource cs2 [IntV 7, StrV ''bye'']) []) = Some (StrV ''bye'') \<and>
   get_deleter (make_scoped_resource cs2 [IntV 7, StrV ''bye'']) []
     = (cs2, make_scoped_resource cs2 [IntV 7, StrV ''bye''], [])"
  using accessors_frame [of 1 "make_scoped_resource cs2 [IntV 7, StrV ''bye'']" "[]"]
  by (simp add: get_def get_deleter_def make_scoped_resource_def scoped_resource_ctor_def)

end
